theory Spec2Isabelle
  imports Complex_Main "HOL-Library.Multiset" "HOL-Library.Sublist"
begin

section \<open>Loan amortisation and maturity classification (emprestimo.py)\<close>

text \<open>
  The embedding follows \<^verbatim>\<open>src/emprestimo.py\<close>: \<^verbatim>\<open>calcular_parcela\<close>,
  \<^verbatim>\<open>gerar_tabela_amortizacao\<close>, \<^verbatim>\<open>analisar_prazo_contabil\<close> and the column sums of
  the calling script.

  Modelling decisions.
  \<^item> Amounts are Python floats in the source. They are modelled as exact reals: every
    statement below is about exact arithmetic, and says nothing about rounding,
    overflow or the drift of binary floating point.
  \<^item> \<^verbatim>\<open>prazo_meses\<close> is a Python int, modelled as \<open>int\<close>.
  \<^item> Exceptions are values: a function that can raise returns \<open>error + 'a\<close>.
  \<^item> A pandas timestamp is modelled as a calendar date (the script passes midnights
    made from dates). \<^verbatim>\<open>pd.DateOffset(months=n)\<close>, \<^verbatim>\<open>strftime\<close> and \<^verbatim>\<open>pd.to_datetime\<close>
    are library code; they are modelled after their documented behaviour, and the
    bounds of the timestamp type are not modelled.
  \<^item> A DataFrame is its list of column names together with its list of rows;
    \<^verbatim>\<open>pd.DataFrame([])\<close> has no columns. The column names with non-ASCII letters are
    written without the accents.
\<close>

subsection \<open>Errors and float operations that can raise\<close>

datatype error = ZeroDivisionError | KeyError | ValueError

text \<open>\<^verbatim>\<open>a / b\<close> on floats raises on a zero divisor.\<close>

definition float_div :: "real \<Rightarrow> real \<Rightarrow> error + real" where
  "float_div a b = (if b = 0 then Inl ZeroDivisionError else Inr (a / b))"

text \<open>\<^verbatim>\<open>x ** n\<close> with a float base and an int exponent: zero to a negative power raises.\<close>

definition float_pow :: "real \<Rightarrow> int \<Rightarrow> error + real" where
  "float_pow x n =
     (if 0 \<le> n then Inr (x ^ nat n)
      else if x = 0 then Inl ZeroDivisionError
      else Inr (1 / x ^ nat (- n)))"

subsection \<open>The periodic payment\<close>

definition calcular_parcela :: "real \<Rightarrow> real \<Rightarrow> int \<Rightarrow> error + real" where
  "calcular_parcela valor_principal taxa_juros_anual prazo_meses =
     (let taxa_mensal = taxa_juros_anual / 12 / 100 in
      if taxa_mensal = 0 then float_div valor_principal (real_of_int prazo_meses)
      else
        (case float_pow (1 + taxa_mensal) prazo_meses of
           Inl e \<Rightarrow> Inl e
         | Inr p \<Rightarrow> float_div (valor_principal * (taxa_mensal * p)) (p - 1)))"

subsection \<open>Calendar dates and the month offset\<close>

record date =
  year :: int
  month :: int
  day :: int

definition is_leap :: "int \<Rightarrow> bool" where
  "is_leap y = (y mod 4 = 0 \<and> (y mod 100 \<noteq> 0 \<or> y mod 400 = 0))"

definition days_in_month :: "int \<Rightarrow> int \<Rightarrow> int" where
  "days_in_month y m =
     (if m = 2 then (if is_leap y then 29 else 28)
      else if m = 4 \<or> m = 6 \<or> m = 9 \<or> m = 11 then 30
      else 31)"

definition valid_date :: "date \<Rightarrow> bool" where
  "valid_date d =
     (1 \<le> year d \<and> year d \<le> 9999 \<and> 1 \<le> month d \<and> month d \<le> 12 \<and>
      1 \<le> day d \<and> day d \<le> days_in_month (year d) (month d))"

text \<open>
  \<^verbatim>\<open>d + pd.DateOffset(months=n)\<close>: the month moves by \<open>n\<close>, the year follows, and the
  day of the month is kept unless the target month is shorter, in which case it is
  the last day of that month.
\<close>

definition DateOffset_months :: "date \<Rightarrow> int \<Rightarrow> date" where
  "DateOffset_months d n =
     (let t = year d * 12 + (month d - 1) + n;
          y = t div 12;
          m = t mod 12 + 1
      in \<lparr>year = y, month = m, day = min (day d) (days_in_month y m)\<rparr>)"

text \<open>Timestamps compare chronologically.\<close>

definition date_le :: "date \<Rightarrow> date \<Rightarrow> bool" where
  "date_le a b =
     (year a < year b \<or>
      (year a = year b \<and> (month a < month b \<or> (month a = month b \<and> day a \<le> day b))))"

definition date_gt :: "date \<Rightarrow> date \<Rightarrow> bool" where
  "date_gt a b =
     (year a > year b \<or>
      (year a = year b \<and> (month a > month b \<or> (month a = month b \<and> day a > day b))))"

subsection \<open>Formatting and parsing \<^verbatim>\<open>%d/%m/%Y\<close>\<close>

definition digit :: "int \<Rightarrow> char" where
  "digit k = char_of (48 + k)"

definition pad2 :: "int \<Rightarrow> string" where
  "pad2 n = [digit (n div 10 mod 10), digit (n mod 10)]"

definition pad4 :: "int \<Rightarrow> string" where
  "pad4 n = [digit (n div 1000 mod 10), digit (n div 100 mod 10),
             digit (n div 10 mod 10), digit (n mod 10)]"

text \<open>
  \<^verbatim>\<open>strftime('%d/%m/%Y')\<close>: two digits, two digits, four digits (exact for the years
  1 to 9999, the only ones a Python date has).
\<close>

definition strftime_dmY :: "date \<Rightarrow> string" where
  "strftime_dmY d = pad2 (day d) @ ''/'' @ pad2 (month d) @ ''/'' @ pad4 (year d)"

definition digit_val :: "char \<Rightarrow> int option" where
  "digit_val c =
     (let k = (of_char c :: int) in if 48 \<le> k \<and> k \<le> 57 then Some (k - 48) else None)"

fun parse_digits :: "int \<Rightarrow> string \<Rightarrow> int option" where
  "parse_digits acc [] = Some acc"
| "parse_digits acc (c # cs) =
     (case digit_val c of None \<Rightarrow> None | Some k \<Rightarrow> parse_digits (10 * acc + k) cs)"

definition parse_num :: "string \<Rightarrow> int option" where
  "parse_num s = (if s = [] then None else parse_digits 0 s)"

fun split_slash :: "string \<Rightarrow> string list" where
  "split_slash [] = [[]]"
| "split_slash (c # cs) =
     (if c = CHR ''/'' then [] # split_slash cs
      else (case split_slash cs of
              [] \<Rightarrow> [[c]]
            | w # ws \<Rightarrow> (c # w) # ws))"

text \<open>
  \<^verbatim>\<open>pd.to_datetime(s, format='%d/%m/%Y')\<close> on one string: day and month of one or two
  digits, a year of four digits, separated by slashes, naming a date that exists;
  otherwise \<^verbatim>\<open>ValueError\<close>. (The library also reads a one-digit day or month written
  with a leading blank, a spelling that \<^verbatim>\<open>strftime\<close> never produces; the model
  rejects it.)
\<close>

definition to_datetime_dmY :: "string \<Rightarrow> error + date" where
  "to_datetime_dmY s =
     (case split_slash s of
        [ds, ms, ys] \<Rightarrow>
          (if length ds \<in> {1, 2} \<and> length ms \<in> {1, 2} \<and> length ys = 4 then
             (case (parse_num ds, parse_num ms, parse_num ys) of
                (Some d, Some m, Some y) \<Rightarrow>
                  (if valid_date \<lparr>year = y, month = m, day = d\<rparr>
                   then Inr \<lparr>year = y, month = m, day = d\<rparr>
                   else Inl ValueError)
              | _ \<Rightarrow> Inl ValueError)
           else Inl ValueError)
      | _ \<Rightarrow> Inl ValueError)"

subsection \<open>DataFrames\<close>

record row =
  Parcela :: int
  Data :: string
  Prestacao :: real
  Juros :: real
  Amortizacao :: real
  Saldo_Devedor :: real

record 'r frame =
  columns :: "string list"
  rows :: "'r list"

type_synonym dataframe = "row frame"

definition schedule_columns :: "string list" where
  "schedule_columns =
     [''Parcela'', ''Data'', ''Prestacao'', ''Juros'', ''Amortizacao'', ''Saldo Devedor'']"

text \<open>\<^verbatim>\<open>pd.DataFrame(tabela)\<close> for a list of dicts with the six keys: no rows, no columns.\<close>

definition pd_DataFrame :: "row list \<Rightarrow> dataframe" where
  "pd_DataFrame tabela =
     \<lparr>columns = (if tabela = [] then [] else schedule_columns), rows = tabela\<rparr>"

subsection \<open>The amortisation table\<close>

text \<open>One pass of the loop body: the state is the running balance and the table.\<close>

definition loop_body ::
  "real \<Rightarrow> real \<Rightarrow> int \<Rightarrow> date \<Rightarrow> int \<Rightarrow> real \<times> row list \<Rightarrow> real \<times> row list" where
  "loop_body taxa_mensal parcela prazo_meses data_inicio i st =
     (let saldo_devedor = fst st;
          tabela = snd st;
          data_parcela = DateOffset_months data_inicio i;
          juros = saldo_devedor * taxa_mensal;
          amortizacao = parcela - juros;
          saldo_devedor1 = saldo_devedor - amortizacao;
          amortizacao2 = (if i = prazo_meses then amortizacao + saldo_devedor1 else amortizacao);
          saldo_devedor2 = (if i = prazo_meses then 0 else saldo_devedor1)
      in (saldo_devedor2,
          tabela @ [\<lparr>Parcela = i, Data = strftime_dmY data_parcela, Prestacao = parcela,
                      Juros = juros, Amortizacao = amortizacao2,
                      Saldo_Devedor = saldo_devedor2\<rparr>]))"

definition gerar_tabela_amortizacao ::
  "real \<Rightarrow> real \<Rightarrow> int \<Rightarrow> date \<Rightarrow> error + dataframe" where
  "gerar_tabela_amortizacao valor_principal taxa_juros_anual prazo_meses data_inicio =
     (let taxa_mensal = taxa_juros_anual / 12 / 100 in
      case calcular_parcela valor_principal taxa_juros_anual prazo_meses of
        Inl e \<Rightarrow> Inl e
      | Inr parcela \<Rightarrow>
          Inr (pd_DataFrame
                 (snd (fold (loop_body taxa_mensal parcela prazo_meses data_inicio)
                         [1..prazo_meses] (valor_principal, [])))))"

subsection \<open>The maturity classification\<close>

text \<open>Parsing the whole \<^verbatim>\<open>Data\<close> column: one bad string fails the call.\<close>

fun parse_column :: "row list \<Rightarrow> error + (row \<times> date) list" where
  "parse_column [] = Inr []"
| "parse_column (r # rs) =
     (case to_datetime_dmY (Data r) of
        Inl e \<Rightarrow> Inl e
      | Inr d \<Rightarrow> (case parse_column rs of Inl e \<Rightarrow> Inl e | Inr ps \<Rightarrow> Inr ((r, d) # ps)))"

text \<open>
  The two results carry the input's columns and the new column \<^verbatim>\<open>Data_dt\<close>; a row of
  a result is the input row paired with its parsed date. Boolean-mask selection keeps
  the rows in their order.
\<close>

definition analisar_prazo_contabil ::
  "dataframe \<Rightarrow> date \<Rightarrow> error + ((row \<times> date) frame \<times> (row \<times> date) frame)" where
  "analisar_prazo_contabil df data_base =
     (let data_limite = DateOffset_months data_base 12 in
      if ''Data'' \<notin> set (columns df) then Inl KeyError
      else
        (case parse_column (rows df) of
           Inl e \<Rightarrow> Inl e
         | Inr df_com_data \<Rightarrow>
             (let cols = columns df @ [''Data_dt''];
                  curto_prazo = \<lparr>columns = cols,
                     rows = filter (\<lambda>p. date_le (snd p) data_limite) df_com_data\<rparr>;
                  longo_prazo = \<lparr>columns = cols,
                     rows = filter (\<lambda>p. date_gt (snd p) data_limite) df_com_data\<rparr>
              in Inr (curto_prazo, longo_prazo))))"

text \<open>\<^verbatim>\<open>frame[name].sum()\<close>: the column must exist; the sum of no values is zero.\<close>

definition column_sum :: "string \<Rightarrow> (row \<Rightarrow> real) \<Rightarrow> (row \<times> date) frame \<Rightarrow> error + real" where
  "column_sum name field fr =
     (if name \<notin> set (columns fr) then Inl KeyError
      else Inr (sum_list (map (\<lambda>p. field (fst p)) (rows fr))))"

subsection \<open>Auxiliary functions for the proofs\<close>

text \<open>
  \<open>saldo_apos t a P k\<close> is the running balance after \<open>k\<close> passes of the loop without the
  final correction, for monthly rate \<open>t\<close>, payment \<open>a\<close> and principal \<open>P\<close>;
  \<open>linha t a n start P i\<close> is the row that pass \<open>i\<close> of a loop of \<open>n\<close> passes appends.
\<close>

fun saldo_apos :: "real \<Rightarrow> real \<Rightarrow> real \<Rightarrow> nat \<Rightarrow> real" where
  "saldo_apos t a P 0 = P"
| "saldo_apos t a P (Suc k) = saldo_apos t a P k - (a - saldo_apos t a P k * t)"

definition linha :: "real \<Rightarrow> real \<Rightarrow> int \<Rightarrow> date \<Rightarrow> real \<Rightarrow> int \<Rightarrow> row" where
  "linha t a n start P i =
     \<lparr>Parcela = i, Data = strftime_dmY (DateOffset_months start i), Prestacao = a,
      Juros = saldo_apos t a P (nat (i - 1)) * t,
      Amortizacao = (if i = n then saldo_apos t a P (nat (i - 1))
                     else a - saldo_apos t a P (nat (i - 1)) * t),
      Saldo_Devedor = (if i = n then 0 else saldo_apos t a P (nat i))\<rparr>"

subsection \<open>A two-row table for the instances\<close>




definition exemplo_base :: date where
  "exemplo_base = \<lparr>year = 2024, month = 1, day = 1\<rparr>"

section \<open>Properties\<close>

subsection \<open>The payment formula\<close>

lemma pow_gt_one:
  fixes r :: real
  assumes "0 < r" "1 \<le> n"
  shows "1 < (1 + r) ^ nat n"
proof -
  from assms have "0 < nat n" by simp
  with assms show ?thesis by (simp add: one_less_power)
qed

lemma calcular_parcela_rate_zero:
  assumes "r = 0" "n \<noteq> 0"
  shows "calcular_parcela P r n = Inr (P / real_of_int n)"
  using assms by (simp add: calcular_parcela_def float_div_def)

lemma calcular_parcela_annuity:
  assumes "0 < r" "1 \<le> n"
  shows "calcular_parcela P r n =
           Inr (P * (r / 12 / 100 * (1 + r / 12 / 100) ^ nat n) / ((1 + r / 12 / 100) ^ nat n - 1))"
proof -
  from assms have t: "0 < r / 12 / 100" by simp
  from pow_gt_one [OF t assms(2)] have "(1 + r / 12 / 100) ^ nat n \<noteq> 1" by simp
  with assms show ?thesis
    by (simp add: calcular_parcela_def float_div_def float_pow_def Let_def)
qed




subsection \<open>The table as a list of rows\<close>

lemma loop_body_linha:
  assumes "1 \<le> i"
  shows "loop_body t a n start i (saldo_apos t a P (nat (i - 1)), tab) =
           (if i = n then 0 else saldo_apos t a P (nat i), tab @ [linha t a n start P i])"
proof -
  from assms have "nat i = Suc (nat (i - 1))" by simp
  then show ?thesis
    by (simp add: loop_body_def linha_def Let_def)
qed

lemma fold_loop_body:
  "int k \<le> n \<or> k = 0 \<Longrightarrow>
     fold (loop_body t a n start) [1..int k] (P, []) =
       (if int k = n \<and> 0 < k then 0 else saldo_apos t a P k, map (linha t a n start P) [1..int k])"
proof (induction k)
  case 0
  then show ?case by simp
next
  case (Suc k)
  let ?f = "loop_body t a n start"
  let ?l = "linha t a n start P"
  let ?j = "int k + 1"
  have j: "int (Suc k) = ?j" by simp
  have split: "[1..?j] = [1..int k] @ [?j]"
    using upto_rec2 [of 1 ?j] by simp
  from Suc.prems have le: "int k < n" by simp
  with Suc.IH have IH: "fold ?f [1..int k] (P, []) = (saldo_apos t a P k, map ?l [1..int k])"
    by simp
  have nk: "nat (?j - 1) = k" "nat ?j = Suc k" by simp_all
  have step: "?f ?j (saldo_apos t a P (nat (?j - 1)), map ?l [1..int k]) =
          (if ?j = n then 0 else saldo_apos t a P (nat ?j), map ?l [1..int k] @ [?l ?j])"
    by (rule loop_body_linha) simp
  have "fold ?f [1..?j] (P, []) = ?f ?j (fold ?f [1..int k] (P, []))"
    unfolding split by simp
  also have "\<dots> = ?f ?j (saldo_apos t a P (nat (?j - 1)), map ?l [1..int k])"
    unfolding IH nk ..
  also note step
  also have "map ?l [1..int k] @ [?l ?j] = map ?l [1..?j]"
    unfolding split by simp
  finally have "fold ?f [1..?j] (P, []) =
      (if ?j = n then 0 else saldo_apos t a P (Suc k), map ?l [1..?j])"
    unfolding nk .
  then show ?case unfolding j by simp
qed

lemma fold_loop_body_full:
  "fold (loop_body t a n start) [1..n] (P, []) =
     (if 1 \<le> n then 0 else P, map (linha t a n start P) [1..n])"
proof (cases "1 \<le> n")
  case True
  then have "int (nat n) = n" "0 < nat n" by simp_all
  with fold_loop_body [of "nat n" n t a start P] show ?thesis by simp
next
  case False
  then show ?thesis by simp
qed

lemma gerar_rows:
  assumes "calcular_parcela P r n = Inr a"
  shows "gerar_tabela_amortizacao P r n start =
           Inr (pd_DataFrame (map (linha (r / 12 / 100) a n start P) [1..n]))"
  using assms by (simp add: gerar_tabela_amortizacao_def fold_loop_body_full)


lemma rows_pd_DataFrame: "rows (pd_DataFrame tab) = tab"
  by (simp add: pd_DataFrame_def)







subsection \<open>The balance in closed form\<close>




subsection \<open>The amortisation table: sums and balances\<close>











subsection \<open>The worked example\<close>

lemma example_payment:
  "\<bar>100000 * (1 / 100 * (101 / 100) ^ 36) / ((101 / 100) ^ 36 - 1) - (3321.43 :: real)\<bar> < 0.005"
  by (simp add: field_simps)

lemma hd_rows:
  assumes "1 \<le> n"
  shows "hd (map (linha t a n start P) [1..n]) = linha t a n start P 1"
  using assms upto_rec1 [of 1 n] by simp

lemma example_calcular:
  "calcular_parcela 100000 12 36 =
     Inr (100000 * (1 / 100 * (101 / 100) ^ 36) / ((101 / 100) ^ 36 - 1))"
  using calcular_parcela_annuity [of 12 36 100000] by simp

text \<open>
  C7. For principal 100000, annual rate 12 and a term of 36 months the payment is
  3321.43 to within half a cent, and the first row of the table has interest exactly
  1000, principal portion 2321.43 and remaining balance 97678.57, both to within half
  a cent.
\<close>

theorem example_100000_12_36:
  "\<exists>a df. calcular_parcela 100000 12 36 = Inr a \<and> \<bar>a - 3321.43\<bar> < 0.005 \<and>
     gerar_tabela_amortizacao 100000 12 36 \<lparr>year = 2024, month = 1, day = 1\<rparr> = Inr df \<and>
     Parcela (hd (rows df)) = 1 \<and>
     Juros (hd (rows df)) = 1000 \<and>
     \<bar>Amortizacao (hd (rows df)) - 2321.43\<bar> < 0.005 \<and>
     \<bar>Saldo_Devedor (hd (rows df)) - 97678.57\<bar> < 0.005"
proof -
  define a :: real where "a = 100000 * (1 / 100 * (101 / 100) ^ 36) / ((101 / 100) ^ 36 - 1)"
  define d0 where "d0 = \<lparr>year = 2024, month = 1, day = 1\<rparr>"
  let ?l = "linha (12 / 12 / 100) a 36 d0 100000"
  let ?df = "pd_DataFrame (map ?l [1..36])"
  have c: "calcular_parcela 100000 12 36 = Inr a"
    unfolding a_def by (rule example_calcular)
  have b: "\<bar>a - 3321.43\<bar> < 0.005"
    unfolding a_def by (rule example_payment)
  have g: "gerar_tabela_amortizacao 100000 12 36 d0 = Inr ?df"
    by (rule gerar_rows [OF c])
  have h: "hd (rows ?df) = ?l 1"
    unfolding rows_pd_DataFrame by (rule hd_rows) simp
  have f: "Parcela (?l 1) = 1" "Juros (?l 1) = 1000"
    "Amortizacao (?l 1) = a - 1000" "Saldo_Devedor (?l 1) = 100000 - (a - 1000)"
    by (simp_all add: linha_def)
  have bb: "a < 3321.435" "3321.425 < a"
    using b unfolding abs_less_iff by simp_all
  have am: "\<bar>Amortizacao (?l 1) - 2321.43\<bar> < 0.005"
    unfolding f abs_less_iff using bb by simp
  have sd: "\<bar>Saldo_Devedor (?l 1) - 97678.57\<bar> < 0.005"
    unfolding f abs_less_iff using bb by simp
  from c b g h f(1,2) am sd show ?thesis
    unfolding d0_def by metis
qed

subsection \<open>Errors\<close>









subsection \<open>Formatting a date and parsing it back\<close>












subsection \<open>The month offset\<close>








subsection \<open>The classification\<close>

lemma date_gt_iff: "date_gt a b \<longleftrightarrow> \<not> date_le a b"
  by (auto simp add: date_gt_def date_le_def)






lemma analisar_parsed:
  assumes "''Data'' \<in> set (columns df)" "parse_column (rows df) = Inr ps"
  shows "analisar_prazo_contabil df data_base =
           Inr (\<lparr>columns = columns df @ [''Data_dt''],
                  rows = filter (\<lambda>p. date_le (snd p) (DateOffset_months data_base 12)) ps\<rparr>,
                \<lparr>columns = columns df @ [''Data_dt''],
                  rows = filter (\<lambda>p. \<not> date_le (snd p) (DateOffset_months data_base 12)) ps\<rparr>)"
  using assms by (simp add: analisar_prazo_contabil_def Let_def date_gt_iff)


















lemma column_sum_empty:
  "rows fr = [] \<Longrightarrow> name \<in> set (columns fr) \<Longrightarrow> column_sum name field fr = Inr 0"
  by (simp add: column_sum_def)

subsection \<open>The classification: the claims\<close>






text \<open>
  C8 as stated fails: the empty table that \<open>gerar_tabela_amortizacao\<close> itself returns
  when its loop makes no pass, \<^verbatim>\<open>pd.DataFrame([])\<close>, has no \<^verbatim>\<open>Data\<close> column, and
  \<open>analisar_prazo_contabil\<close> raises \<^verbatim>\<open>KeyError\<close> on it.
\<close>

theorem analisar_empty_no_columns_counterexample:
  "gerar_tabela_amortizacao 1200 0 (- 1) \<lparr>year = 2024, month = 1, day = 1\<rparr> =
     Inr (pd_DataFrame []) \<and>
   rows (pd_DataFrame []) = [] \<and>
   analisar_prazo_contabil (pd_DataFrame []) \<lparr>year = 2024, month = 1, day = 1\<rparr> = Inl KeyError"
proof -
  have c: "calcular_parcela 1200 0 (- 1) = Inr (- 1200)"
    using calcular_parcela_rate_zero [of 0 "- 1" 1200] by simp
  from gerar_rows [OF c] show ?thesis
    by (simp add: pd_DataFrame_def analisar_prazo_contabil_def)
qed

text \<open>
  C8, amended. On a table with no rows that has a \<^verbatim>\<open>Data\<close> column,
  \<open>analisar_prazo_contabil\<close> does not fail, for any base date: it returns two results
  without rows, and the sum of any column of the table over either is 0. The sum of an
  existing column over any result without rows is 0. On a table without a \<^verbatim>\<open>Data\<close>
  column it raises \<^verbatim>\<open>KeyError\<close>.
\<close>

theorem analisar_empty:
  "(rows df = [] \<and> ''Data'' \<in> set (columns df) \<longrightarrow>
      (\<exists>curto longo. analisar_prazo_contabil df data_base = Inr (curto, longo) \<and>
          rows curto = [] \<and> rows longo = [] \<and>
          (\<forall>name \<in> set (columns df).
              column_sum name field curto = Inr 0 \<and> column_sum name field longo = Inr 0))) \<and>
   (rows fr = [] \<and> nome \<in> set (columns fr) \<longrightarrow> column_sum nome field fr = Inr 0) \<and>
   (''Data'' \<notin> set (columns df) \<longrightarrow> analisar_prazo_contabil df data_base = Inl KeyError)"
proof -
  have a: "\<exists>curto longo. analisar_prazo_contabil df data_base = Inr (curto, longo) \<and>
          rows curto = [] \<and> rows longo = [] \<and>
          (\<forall>name \<in> set (columns df).
              column_sum name field curto = Inr 0 \<and> column_sum name field longo = Inr 0)"
    if "rows df = []" "''Data'' \<in> set (columns df)"
  proof -
    from that(1) have ps: "parse_column (rows df) = Inr []" by simp
    show ?thesis
      unfolding analisar_parsed [OF that(2) ps]
      by (simp add: column_sum_def)
  qed
  have b: "''Data'' \<notin> set (columns df) \<Longrightarrow> analisar_prazo_contabil df data_base = Inl KeyError"
    by (simp add: analisar_prazo_contabil_def)
  from a b column_sum_empty [of fr nome field] show ?thesis by blast
qed

theorem analisar_empty_witness:
  "(\<exists>curto longo.
      analisar_prazo_contabil \<lparr>columns = schedule_columns, rows = []\<rparr> exemplo_base =
        Inr (curto, longo) \<and>
      rows curto = [] \<and> rows longo = [] \<and>
      column_sum ''Amortizacao'' Amortizacao curto = Inr 0 \<and>
      column_sum ''Amortizacao'' Amortizacao longo = Inr 0) \<and>
   column_sum ''Juros'' Juros \<lparr>columns = schedule_columns @ [''Data_dt''], rows = []\<rparr> = Inr 0 \<and>
   analisar_prazo_contabil (pd_DataFrame []) exemplo_base = Inl KeyError"
proof -
  have c: "''Data'' \<in> set schedule_columns" "''Amortizacao'' \<in> set schedule_columns"
    "''Juros'' \<in> set schedule_columns"
    by (simp_all add: schedule_columns_def)
  from analisar_empty [of "\<lparr>columns = schedule_columns, rows = []\<rparr>" exemplo_base Amortizacao
      "\<lparr>columns = schedule_columns @ [''Data_dt''], rows = []\<rparr>" "''Juros''"] c
  have 1: "\<exists>curto longo.
      analisar_prazo_contabil \<lparr>columns = schedule_columns, rows = []\<rparr> exemplo_base =
        Inr (curto, longo) \<and>
      rows curto = [] \<and> rows longo = [] \<and>
      column_sum ''Amortizacao'' Amortizacao curto = Inr 0 \<and>
      column_sum ''Amortizacao'' Amortizacao longo = Inr 0"
    by auto
  from analisar_empty [of "\<lparr>columns = schedule_columns, rows = []\<rparr>" exemplo_base Juros
      "\<lparr>columns = schedule_columns @ [''Data_dt''], rows = []\<rparr>" "''Juros''"] c
  have 2: "column_sum ''Juros'' Juros \<lparr>columns = schedule_columns @ [''Data_dt''], rows = []\<rparr> = Inr 0"
    by simp
  from analisar_empty [of "pd_DataFrame []" exemplo_base Juros
      "\<lparr>columns = schedule_columns @ [''Data_dt''], rows = []\<rparr>" "''Juros''"]
  have 3: "analisar_prazo_contabil (pd_DataFrame []) exemplo_base = Inl KeyError"
    by (simp add: pd_DataFrame_def)
  from 1 2 3 show ?thesis by blast
qed



end
